theory Spec2Isabelle
  imports Complex_Main
begin

section \<open>Values, errors and configuration\<close>

text \<open>
  The ROE calculator of \<^verbatim>\<open>src/features/roe_calculator.py\<close> computes with Python
  numbers. Python \<^verbatim>\<open>float\<close> and \<^verbatim>\<open>int\<close> values are idealised as real numbers: every
  arithmetic operation is exact, there is no NaN, no infinity, no overflow and no rounding. Every
  exception the arithmetic can raise on real arguments (division by zero, a negative power
  of zero, an operand of the wrong type, a missing key) is a value of \<open>py_error\<close>.
\<close>

datatype py_error = KeyError string | TypeError | ValueError | ZeroDivisionError

text \<open>The entries of \<^verbatim>\<open>ROE_TIERS\<close>: a dictionary with the keys min, color, icon, label.\<close>

record tier_info =
  tier_min :: real
  color :: string
  icon :: string
  label :: string

text \<open>
  A dynamically typed Python value, as it occurs in a cell of the input table and in the
  dictionary that \<^verbatim>\<open>calculate_roe\<close> returns.
\<close>

datatype pyval = Num real | Str string | Bool bool | NoneV | TierV tier_info

text \<open>The keys of the dictionary \<^verbatim>\<open>ROE_TIERS\<close>.\<close>

datatype tier_key = unicorn | strong | marginal | pass

text \<open>
  Labels carry a pictograph; a string is a list of bytes, so the pictograph is written as
  its UTF-8 encoding.
\<close>

definition ROE_TIERS :: "tier_key \<Rightarrow> tier_info" where
  "ROE_TIERS k = (case k of
     unicorn \<Rightarrow> \<lparr>tier_min = 20 / 100, color = ''purple'', icon = ''star'',
        label = [CHR 0xF0, CHR 0x9F, CHR 0xA6, CHR 0x84] @ '' UNICORN''\<rparr>
   | strong \<Rightarrow> \<lparr>tier_min = 15 / 100, color = ''green'', icon = ''home'',
        label = [CHR 0xF0, CHR 0x9F, CHR 0x9F, CHR 0xA2] @ '' Strong Buy''\<rparr>
   | marginal \<Rightarrow> \<lparr>tier_min = 10 / 100, color = ''orange'', icon = ''info-sign'',
        label = [CHR 0xF0, CHR 0x9F, CHR 0x9F, CHR 0xA1] @ '' Marginal''\<rparr>
   | pass \<Rightarrow> \<lparr>tier_min = 0, color = ''red'', icon = ''remove'',
        label = [CHR 0xF0, CHR 0x9F, CHR 0x94, CHR 0xB4] @ '' Pass''\<rparr>)"

text \<open>
  The attributes that \<^verbatim>\<open>ROECalculator.__init__\<close> stores; \<^verbatim>\<open>self.term\<close> is the
  field \<open>term_years\<close>.
\<close>

record calculator =
  self_opex_ratio :: real
  self_down_pct :: real
  self_rate :: real
  self_term :: int
  self_appreciation :: real

definition default_calculator :: calculator where
  "default_calculator =
     \<lparr>self_opex_ratio = 35 / 100, self_down_pct = 25 / 100, self_rate = 7 / 100,
      self_term = 30, self_appreciation = 0\<rparr>"

section \<open>Tier classification\<close>

definition get_roe_tier :: "real \<Rightarrow> tier_info" where
  "get_roe_tier roe =
     (if roe \<ge> 20 / 100 then ROE_TIERS unicorn
      else if roe \<ge> 15 / 100 then ROE_TIERS strong
      else if roe \<ge> 10 / 100 then ROE_TIERS marginal
      else ROE_TIERS pass)"

section \<open>Rent estimation\<close>

definition high_rent_zips :: "string list" where
  "high_rent_zips =
     [''75201'', ''75204'', ''75205'', ''75219'', ''75225'', ''76107'', ''76109'']"

definition mid_rent_zips :: "string list" where
  "mid_rent_zips =
     [''75206'', ''75214'', ''75218'', ''75223'', ''75235'', ''76102'', ''76104'', ''76105'']"

text \<open>
  Python's \<^verbatim>\<open>x in xs\<close> for a list of strings: a value that is not a string is equal to
  none of them.
\<close>

definition py_in :: "pyval \<Rightarrow> string list \<Rightarrow> bool" where
  "py_in v xs = (case v of Str s \<Rightarrow> s \<in> set xs | _ \<Rightarrow> False)"

definition estimate_market_rent :: "pyval \<Rightarrow> real \<Rightarrow> real" where
  "estimate_market_rent zip_code sqft_per_unit =
     (let base_rate =
            (if py_in zip_code high_rent_zips then 140 / 100
             else if py_in zip_code mid_rent_zips then 120 / 100
             else 1);
          monthly_rent = sqft_per_unit * base_rate
      in max 800 (min monthly_rent 2500))"

section \<open>Mortgage arithmetic\<close>

text \<open>Python's \<^verbatim>\<open>a / b\<close> on numbers raises when the divisor is zero.\<close>

definition py_truediv :: "real \<Rightarrow> real \<Rightarrow> py_error + real" where
  "py_truediv a b = (if b = 0 then Inl ZeroDivisionError else Inr (a / b))"

text \<open>
  Python's \<^verbatim>\<open>x ** n\<close> for a float base and an integer exponent: zero cannot be
  raised to a negative power.
\<close>

definition py_pow :: "real \<Rightarrow> int \<Rightarrow> py_error + real" where
  "py_pow x n = (if x = 0 \<and> n < 0 then Inl ZeroDivisionError else Inr (power_int x n))"

definition calculate_mortgage_payment :: "real \<Rightarrow> real \<Rightarrow> int \<Rightarrow> py_error + real" where
  "calculate_mortgage_payment loan_amount annual_rate years =
     (let monthly_rate = annual_rate / 12;
          num_payments = years * 12
      in if monthly_rate = 0 then py_truediv loan_amount (of_int num_payments)
         else (case py_pow (1 + monthly_rate) num_payments of
                 Inl e \<Rightarrow> Inl e
               | Inr growth \<Rightarrow>
                   py_truediv (loan_amount * (monthly_rate * growth)) (growth - 1)))"

text \<open>
  One pass of the loop body of \<^verbatim>\<open>calculate_principal_paydown_year1\<close> on the pair
  (balance, total\_principal).
\<close>

fun amortization_month :: "real \<Rightarrow> real \<Rightarrow> real \<times> real \<Rightarrow> real \<times> real" where
  "amortization_month monthly_payment monthly_rate (balance, total_principal) =
     (let interest_payment = balance * monthly_rate;
          principal_payment = monthly_payment - interest_payment
      in (balance - principal_payment, total_principal + principal_payment))"

text \<open>The loop \<^verbatim>\<open>for _ in range(k)\<close> around that body.\<close>

fun amortization_loop :: "nat \<Rightarrow> real \<Rightarrow> real \<Rightarrow> real \<times> real \<Rightarrow> real \<times> real" where
  "amortization_loop 0 monthly_payment monthly_rate s = s"
| "amortization_loop (Suc k) monthly_payment monthly_rate s =
     amortization_loop k monthly_payment monthly_rate
       (amortization_month monthly_payment monthly_rate s)"

definition calculate_principal_paydown_year1 :: "real \<Rightarrow> real \<Rightarrow> real \<Rightarrow> real" where
  "calculate_principal_paydown_year1 loan_amount monthly_payment annual_rate =
     (let monthly_rate = annual_rate / 12
      in snd (amortization_loop 12 monthly_payment monthly_rate (loan_amount, 0)))"

text \<open>
  The balance that the same month-by-month simulation leaves after \<open>k\<close> months.
\<close>

definition ending_balance :: "nat \<Rightarrow> real \<Rightarrow> real \<Rightarrow> real \<Rightarrow> real" where
  "ending_balance k loan_amount monthly_payment annual_rate =
     fst (amortization_loop k monthly_payment (annual_rate / 12) (loan_amount, 0))"

section \<open>Property valuation\<close>

text \<open>Truth value of a Python object, as \<^verbatim>\<open>if\<close> and \<^verbatim>\<open>and\<close> test it.\<close>

definition truthy :: "pyval \<Rightarrow> bool" where
  "truthy v = (case v of
     Num x \<Rightarrow> x \<noteq> 0
   | Str s \<Rightarrow> s \<noteq> []
   | Bool b \<Rightarrow> b
   | NoneV \<Rightarrow> False
   | TierV t \<Rightarrow> True)"

text \<open>
  A value used as an operand of float arithmetic: a number is itself, a bool is 0 or 1, and
  anything else makes the operation raise \<^verbatim>\<open>TypeError\<close>.
\<close>

definition as_number :: "pyval \<Rightarrow> py_error + real" where
  "as_number v = (case v of
     Num x \<Rightarrow> Inr x
   | Bool b \<Rightarrow> Inr (if b then 1 else 0)
   | _ \<Rightarrow> Inl TypeError)"

text \<open>
  \<^verbatim>\<open>calculate_roe\<close> with a numeric purchase price and a numeric unit count. The square
  footage and the ZIP code are any Python value (the batch passes \<^verbatim>\<open>None\<close> for a
  table without square footage). The returned dictionary is the list of its items in the
  order of the source.
\<close>

definition calculate_roe ::
  "calculator \<Rightarrow> real \<Rightarrow> real \<Rightarrow> pyval \<Rightarrow> pyval \<Rightarrow> real option
     \<Rightarrow> py_error + (string \<times> pyval) list" where
  "calculate_roe self purchase_price units sqft zip_code monthly_rent_per_unit_arg =
     (case (case monthly_rent_per_unit_arg of
              Some rent \<Rightarrow> Inr rent
            | None \<Rightarrow>
                (case (if truthy sqft \<and> units \<noteq> 0
                       then (case as_number sqft of
                               Inl e \<Rightarrow> Inl e
                             | Inr sqft_num \<Rightarrow> Inr (sqft_num / units))
                       else Inr 1000) of
                   Inl e \<Rightarrow> Inl e
                 | Inr sqft_per_unit \<Rightarrow> Inr (estimate_market_rent zip_code sqft_per_unit))) of
        Inl e \<Rightarrow> Inl e
      | Inr monthly_rent_per_unit \<Rightarrow>
          (let annual_gross_rent = monthly_rent_per_unit * units * 12;
               annual_opex = annual_gross_rent * self_opex_ratio self;
               noi = annual_gross_rent - annual_opex;
               down_payment = purchase_price * self_down_pct self;
               loan_amount = purchase_price - down_payment
           in case calculate_mortgage_payment loan_amount (self_rate self) (self_term self) of
                Inl e \<Rightarrow> Inl e
              | Inr monthly_payment \<Rightarrow>
                  (let annual_debt_service = monthly_payment * 12;
                       cash_flow = noi - annual_debt_service;
                       principal_year1 =
                         calculate_principal_paydown_year1 loan_amount monthly_payment
                           (self_rate self);
                       appreciation_value = purchase_price * self_appreciation self;
                       total_return = cash_flow + principal_year1 + appreciation_value;
                       roe = (if down_payment > 0 then total_return / down_payment else 0);
                       coc = (if down_payment > 0 then cash_flow / down_payment else 0);
                       cap_rate = (if purchase_price > 0 then noi / purchase_price else 0)
                   in Inr
                     [(''purchase_price'', Num purchase_price),
                      (''units'', Num units),
                      (''monthly_rent_per_unit'', Num monthly_rent_per_unit),
                      (''zip_code'', zip_code),
                      (''down_payment'', Num down_payment),
                      (''loan_amount'', Num loan_amount),
                      (''monthly_payment'', Num monthly_payment),
                      (''annual_gross_rent'', Num annual_gross_rent),
                      (''annual_opex'', Num annual_opex),
                      (''opex_ratio'', Num (self_opex_ratio self)),
                      (''noi'', Num noi),
                      (''annual_debt_service'', Num annual_debt_service),
                      (''cash_flow'', Num cash_flow),
                      (''principal_paydown'', Num principal_year1),
                      (''appreciation'', Num appreciation_value),
                      (''total_return'', Num total_return),
                      (''roe'', Num roe),
                      (''coc'', Num coc),
                      (''cap_rate'', Num cap_rate),
                      (''meets_hurdle'', Bool (roe \<ge> 15 / 100)),
                      (''tier'', TierV (get_roe_tier roe))])))"

text \<open>The keys of the dictionary that \<^verbatim>\<open>calculate_roe\<close> returns: the computed columns.\<close>

definition roe_calc_keys :: "string list" where
  "roe_calc_keys =
     [''purchase_price'', ''units'', ''monthly_rent_per_unit'', ''zip_code'',
      ''down_payment'', ''loan_amount'', ''monthly_payment'',
      ''annual_gross_rent'', ''annual_opex'', ''opex_ratio'', ''noi'',
      ''annual_debt_service'', ''cash_flow'', ''principal_paydown'', ''appreciation'',
      ''total_return'', ''roe'', ''coc'', ''cap_rate'', ''meets_hurdle'', ''tier'']"

section \<open>Portfolio aggregation\<close>

text \<open>
  A row of the input table, and a dictionary with string keys: its columns (keys) and their
  values. \<^verbatim>\<open>row[k]\<close> raises \<^verbatim>\<open>KeyError\<close> for a column the table does not have;
  \<^verbatim>\<open>row.get(k, d)\<close> returns the default instead.
\<close>

type_synonym row = "string \<rightharpoonup> pyval"

definition py_getitem :: "row \<Rightarrow> string \<Rightarrow> py_error + pyval" where
  "py_getitem r k = (case r k of None \<Rightarrow> Inl (KeyError k) | Some v \<Rightarrow> Inr v)"

definition row_get :: "row \<Rightarrow> string \<Rightarrow> pyval \<Rightarrow> pyval" where
  "row_get r k d = (case r k of None \<Rightarrow> d | Some v \<Rightarrow> v)"

text \<open>
  The body of the \<^verbatim>\<open>try\<close> block up to the call: the four arguments are read from the
  row, and \<^verbatim>\<open>calculate_roe\<close> is called without a monthly rent. A price or a unit count
  that is not a number raises \<^verbatim>\<open>TypeError\<close> in the first arithmetic operation inside
  the call that uses it; the model raises it when the call is made. A bool counts as the
  number 0 or 1, as it does in Python's arithmetic.
\<close>

definition row_roe_calc :: "calculator \<Rightarrow> row \<Rightarrow> py_error + (string \<times> pyval) list" where
  "row_roe_calc self r =
     (case py_getitem r ''price'' of
        Inl e \<Rightarrow> Inl e
      | Inr price \<Rightarrow>
     (case py_getitem r ''units'' of
        Inl e \<Rightarrow> Inl e
      | Inr units \<Rightarrow>
     (let sqft = row_get r ''sqft'' NoneV in
      case py_getitem r ''zip_code'' of
        Inl e \<Rightarrow> Inl e
      | Inr zip_code \<Rightarrow>
     (case as_number price of
        Inl e \<Rightarrow> Inl e
      | Inr purchase_price \<Rightarrow>
     (case as_number units of
        Inl e \<Rightarrow> Inl e
      | Inr units_num \<Rightarrow>
          calculate_roe self purchase_price units_num sqft zip_code None)))))"

text \<open>
  The loop over the rows: a row whose calculation succeeds appends the merged dictionary
  \<^verbatim>\<open>{**row.to_dict(), **roe_calc}\<close> to \<^verbatim>\<open>results\<close> (a key of the calculation
  replaces the column of the same name); a row whose calculation raises is logged and
  skipped.
\<close>

fun portfolio_loop :: "calculator \<Rightarrow> row list \<Rightarrow> row list \<Rightarrow> row list" where
  "portfolio_loop self [] results = results"
| "portfolio_loop self (r # rows) results =
     (case row_roe_calc self r of
        Inr roe_calc \<Rightarrow> portfolio_loop self rows (results @ [r ++ map_of roe_calc])
      | Inl e \<Rightarrow> portfolio_loop self rows results)"

text \<open>
  After the loop the summary counts read the column \<^verbatim>\<open>result_df['roe']\<close>, outside any
  \<^verbatim>\<open>try\<close>. A data frame built from an empty list of results has no columns, and reading
  the column raises \<^verbatim>\<open>KeyError\<close>; a data frame built from at least one result has the
  column, every result carrying the key.
\<close>

definition analyze_portfolio :: "calculator \<Rightarrow> row list \<Rightarrow> py_error + row list" where
  "analyze_portfolio self properties_df =
     (let results = portfolio_loop self properties_df []
      in if results = [] then Inl (KeyError ''roe'') else Inr results)"

text \<open>
  Two input rows with the same price, unit count, square footage and ZIP code, whatever
  their other columns; two output rows with the same computed columns.
\<close>

definition same_inputs :: "row \<Rightarrow> row \<Rightarrow> bool" where
  "same_inputs r1 r2 \<longleftrightarrow>
     r1 ''price'' = r2 ''price'' \<and> r1 ''units'' = r2 ''units'' \<and>
     r1 ''sqft'' = r2 ''sqft'' \<and> r1 ''zip_code'' = r2 ''zip_code''"

definition same_computed :: "row \<Rightarrow> row \<Rightarrow> bool" where
  "same_computed o1 o2 \<longleftrightarrow> (\<forall>k \<in> set roe_calc_keys. o1 k = o2 k)"

section \<open>Summary formatting\<close>

text \<open>
  Python's format specifications \<^verbatim>\<open>.Nf\<close>, \<^verbatim>\<open>,.Nf\<close> and \<^verbatim>\<open>.N%\<close> on a real number:
  the value is rounded to \<open>N\<close> decimals, a tie going to the even neighbour, and written
  in decimal; a negative value keeps its sign even when it rounds to zero.
\<close>

definition round_half_even :: "real \<Rightarrow> int" where
  "round_half_even x =
     (let f = \<lfloor>x\<rfloor>; d = x - of_int f
      in if d < 1 / 2 then f
         else if d > 1 / 2 then f + 1
         else if even f then f else f + 1)"

definition digit_char :: "nat \<Rightarrow> char" where
  "digit_char d = ''0123456789'' ! d"

fun dec_digits :: "nat \<Rightarrow> string" where
  "dec_digits n = (if n < 10 then [digit_char n] else dec_digits (n div 10) @ [digit_char (n mod 10)])"

text \<open>
  The equation of \<open>dec_digits\<close> rewrites its own right-hand side; it is applied on
  request only.
\<close>

declare dec_digits.simps [simp del]

fun group3 :: "string \<Rightarrow> string" where
  "group3 (a # b # c # d # rest) = a # b # c # CHR '','' # group3 (d # rest)"
| "group3 ds = ds"

definition thousands :: "string \<Rightarrow> string" where
  "thousands ds = rev (group3 (rev ds))"

definition format_fixed :: "bool \<Rightarrow> nat \<Rightarrow> real \<Rightarrow> string" where
  "format_fixed grouping prec x =
     (let n = nat (round_half_even (\<bar>x\<bar> * 10 ^ prec));
          int_digits = dec_digits (n div 10 ^ prec);
          frac_digits = dec_digits (n mod 10 ^ prec)
      in (if x < 0 then ''-'' else '''')
         @ (if grouping then thousands int_digits else int_digits)
         @ (if prec = 0 then ''''
            else ''.'' @ replicate (prec - length frac_digits) CHR ''0'' @ frac_digits))"

definition format_percent :: "nat \<Rightarrow> real \<Rightarrow> string" where
  "format_percent prec x = format_fixed False prec (x * 100) @ ''%''"

text \<open>
  A replacement field \<^verbatim>\<open>{roe_data[k]:spec}\<close>: the key is looked up, and the value is
  formatted if it is a number. A string rejects a numeric format code with
  \<^verbatim>\<open>ValueError\<close>; \<^verbatim>\<open>None\<close> and a dictionary reject any format specification with
  \<^verbatim>\<open>TypeError\<close>.
\<close>

definition format_number :: "(real \<Rightarrow> string) \<Rightarrow> pyval \<Rightarrow> py_error + string" where
  "format_number f v = (case v of
     Num x \<Rightarrow> Inr (f x)
   | Bool b \<Rightarrow> Inr (f (if b then 1 else 0))
   | Str s \<Rightarrow> Inl ValueError
   | NoneV \<Rightarrow> Inl TypeError
   | TierV t \<Rightarrow> Inl TypeError)"

definition field :: "(string \<rightharpoonup> pyval) \<Rightarrow> string \<Rightarrow> (real \<Rightarrow> string) \<Rightarrow> py_error + string" where
  "field roe_data k f =
     (case py_getitem roe_data k of Inl e \<Rightarrow> Inl e | Inr v \<Rightarrow> format_number f v)"

text \<open>\<^verbatim>\<open>tier['label']\<close>: only a tier dictionary can be subscripted with a string.\<close>

definition tier_label :: "pyval \<Rightarrow> py_error + string" where
  "tier_label tier = (case tier of TierV t \<Rightarrow> Inr (label t) | _ \<Rightarrow> Inl TypeError)"

text \<open>
  The pieces of an f-string are evaluated from left to right; the first exception ends the
  evaluation, otherwise the pieces are concatenated.
\<close>

fun join_pieces :: "(py_error + string) list \<Rightarrow> py_error + string" where
  "join_pieces [] = Inr []"
| "join_pieces (Inl e # ps) = Inl e"
| "join_pieces (Inr s # ps) = (case join_pieces ps of Inl e \<Rightarrow> Inl e | Inr t \<Rightarrow> Inr (s @ t))"

definition nl :: string where
  "nl = [CHR 0x0A]"

definition format_roe_summary :: "(string \<rightharpoonup> pyval) \<Rightarrow> py_error + string" where
  "format_roe_summary roe_data =
     (case py_getitem roe_data ''tier'' of
        Inl e \<Rightarrow> Inl e
      | Inr tier \<Rightarrow> join_pieces
         [Inr (nl @ replicate 60 CHR ''='' @ nl),
          tier_label tier, Inr '' - ROE: '', field roe_data ''roe'' (format_percent 1),
          Inr (nl @ replicate 60 CHR ''='' @ nl @ nl @ ''Investment:'' @ nl
               @ ''  Purchase Price:        $''),
          field roe_data ''purchase_price'' (format_fixed True 0),
          Inr (nl @ ''  Down Payment (25%):    $''),
          field roe_data ''down_payment'' (format_fixed True 0),
          Inr (nl @ ''  Loan (75% @ 7%, 30yr): $''),
          field roe_data ''loan_amount'' (format_fixed True 0),
          Inr (nl @ nl @ ''Property:'' @ nl @ ''  Units:                 ''),
          field roe_data ''units'' (format_fixed False 0),
          Inr (nl @ ''  Est. Rent/Unit:        $''),
          field roe_data ''monthly_rent_per_unit'' (format_fixed True 0),
          Inr (''/mo'' @ nl @ nl @ ''Income:'' @ nl @ ''  Gross Rents:           $''),
          field roe_data ''annual_gross_rent'' (format_fixed True 0),
          Inr (''/yr'' @ nl @ ''  Operating Expenses:   -$''),
          field roe_data ''annual_opex'' (format_fixed True 0),
          Inr ''/yr ('',
          field roe_data ''opex_ratio'' (format_percent 0),
          Inr ('')'' @ nl @ ''  Net Operating Income:  $''),
          field roe_data ''noi'' (format_fixed True 0),
          Inr (''/yr'' @ nl @ nl @ ''Cash Flow:'' @ nl @ ''  NOI:                   $''),
          field roe_data ''noi'' (format_fixed True 0),
          Inr (nl @ ''  Debt Service:         -$''),
          field roe_data ''annual_debt_service'' (format_fixed True 0),
          Inr (nl @ ''  Annual Cash Flow:      $''),
          field roe_data ''cash_flow'' (format_fixed True 0),
          Inr '' ('',
          field roe_data ''coc'' (format_percent 1),
          Inr ('' CoC)'' @ nl @ nl @ ''Year 1 Wealth Creation:'' @ nl @ ''  ''
               @ [CHR 0xF0, CHR 0x9F, CHR 0x92, CHR 0xB5] @ '' Cash Flow:          $''),
          field roe_data ''cash_flow'' (format_fixed True 0),
          Inr (nl @ ''  '' @ [CHR 0xF0, CHR 0x9F, CHR 0x8F, CHR 0xA6]
               @ '' Principal Paydown:  $''),
          field roe_data ''principal_paydown'' (format_fixed True 0),
          Inr (nl @ ''  '' @ [CHR 0xF0, CHR 0x9F, CHR 0x93, CHR 0x88]
               @ '' Appreciation:       $''),
          field roe_data ''appreciation'' (format_fixed True 0),
          Inr ('' (0% assumption)'' @ nl @ ''  ''
               @ concat (replicate 60 [CHR 0xE2, CHR 0x94, CHR 0x80]) @ nl @ ''  ''
               @ [CHR 0xF0, CHR 0x9F, CHR 0x92, CHR 0xB0] @ '' Total Return:       $''),
          field roe_data ''total_return'' (format_fixed True 0),
          Inr (nl @ nl @ [CHR 0xF0, CHR 0x9F, CHR 0x8E, CHR 0xAF] @ '' RETURN ON EQUITY: ''),
          field roe_data ''roe'' (format_percent 1),
          Inr (nl @ ''   Cap Rate: ''),
          field roe_data ''cap_rate'' (format_percent 2),
          Inr (nl @ replicate 60 CHR ''='' @ nl)])"

text \<open>
  The layout of the summary: the keys it reads, the text around the rendered values (the
  first caption carries the label of the tier), and the text that results from placing
  rendered values between the captions.
\<close>

definition summary_keys :: "string list" where
  "summary_keys =
     [''roe'', ''purchase_price'', ''down_payment'', ''loan_amount'', ''units'',
      ''monthly_rent_per_unit'', ''annual_gross_rent'', ''annual_opex'', ''opex_ratio'',
      ''noi'', ''annual_debt_service'', ''cash_flow'', ''coc'', ''principal_paydown'',
      ''appreciation'', ''total_return'', ''cap_rate'']"

definition summary_captions :: "string \<Rightarrow> string list" where
  "summary_captions tier_label_text =
     [nl @ replicate 60 CHR ''='' @ nl @ tier_label_text @ '' - ROE: '',
      nl @ replicate 60 CHR ''='' @ nl @ nl @ ''Investment:'' @ nl
        @ ''  Purchase Price:        $'',
      nl @ ''  Down Payment (25%):    $'',
      nl @ ''  Loan (75% @ 7%, 30yr): $'',
      nl @ nl @ ''Property:'' @ nl @ ''  Units:                 '',
      nl @ ''  Est. Rent/Unit:        $'',
      ''/mo'' @ nl @ nl @ ''Income:'' @ nl @ ''  Gross Rents:           $'',
      ''/yr'' @ nl @ ''  Operating Expenses:   -$'',
      ''/yr ('',
      '')'' @ nl @ ''  Net Operating Income:  $'',
      ''/yr'' @ nl @ nl @ ''Cash Flow:'' @ nl @ ''  NOI:                   $'',
      nl @ ''  Debt Service:         -$'',
      nl @ ''  Annual Cash Flow:      $'',
      '' ('',
      '' CoC)'' @ nl @ nl @ ''Year 1 Wealth Creation:'' @ nl @ ''  ''
        @ [CHR 0xF0, CHR 0x9F, CHR 0x92, CHR 0xB5] @ '' Cash Flow:          $'',
      nl @ ''  '' @ [CHR 0xF0, CHR 0x9F, CHR 0x8F, CHR 0xA6] @ '' Principal Paydown:  $'',
      nl @ ''  '' @ [CHR 0xF0, CHR 0x9F, CHR 0x93, CHR 0x88] @ '' Appreciation:       $'',
      '' (0% assumption)'' @ nl @ ''  ''
        @ concat (replicate 60 [CHR 0xE2, CHR 0x94, CHR 0x80]) @ nl @ ''  ''
        @ [CHR 0xF0, CHR 0x9F, CHR 0x92, CHR 0xB0] @ '' Total Return:       $'',
      nl @ nl @ [CHR 0xF0, CHR 0x9F, CHR 0x8E, CHR 0xAF] @ '' RETURN ON EQUITY: '',
      nl @ ''   Cap Rate: '',
      nl @ replicate 60 CHR ''='' @ nl]"

fun fill :: "string list \<Rightarrow> string list \<Rightarrow> string" where
  "fill (c # cs) (v # vs) = c @ v @ fill cs vs"
| "fill cs [] = concat cs"
| "fill [] vs = concat vs"

section \<open>Example inputs\<close>

text \<open>A calculator with the default assumptions and an interest rate of zero.\<close>

definition zero_rate_calculator :: calculator where
  "zero_rate_calculator =
     \<lparr>self_opex_ratio = 35 / 100, self_down_pct = 25 / 100, self_rate = 0,
      self_term = 30, self_appreciation = 0\<rparr>"

text \<open>
  A listing of ten units on 10,000 square feet for 1,000,000 in a ZIP code on neither
  list, and the dictionary that the zero-rate calculator returns for it.
\<close>

definition example_listing :: row where
  "example_listing =
     [''address'' \<mapsto> Str ''1 Main St'', ''price'' \<mapsto> Num 1000000, ''units'' \<mapsto> Num 10,
      ''sqft'' \<mapsto> Num 10000, ''zip_code'' \<mapsto> Str ''75001'']"

definition example_result :: "(string \<times> pyval) list" where
  "example_result =
     [(''purchase_price'', Num 1000000), (''units'', Num 10),
      (''monthly_rent_per_unit'', Num 1000), (''zip_code'', Str ''75001''),
      (''down_payment'', Num 250000), (''loan_amount'', Num 750000),
      (''monthly_payment'', Num (6250 / 3)),
      (''annual_gross_rent'', Num 120000), (''annual_opex'', Num 42000),
      (''opex_ratio'', Num (35 / 100)), (''noi'', Num 78000),
      (''annual_debt_service'', Num 25000), (''cash_flow'', Num 53000),
      (''principal_paydown'', Num 25000), (''appreciation'', Num 0),
      (''total_return'', Num 78000), (''roe'', Num (39 / 125)),
      (''coc'', Num (53 / 250)), (''cap_rate'', Num (39 / 500)),
      (''meets_hurdle'', Bool True),
      (''tier'', TierV (ROE_TIERS unicorn))]"

section \<open>Properties of the tier classification\<close>

lemma ROE_TIERS_inj: "ROE_TIERS a = ROE_TIERS b \<longleftrightarrow> a = b"
  by (cases a; cases b) (simp_all add: ROE_TIERS_def)

text \<open>
  C2. The tier classification is total and non-overlapping with inclusive lower bounds:
  a ROE of at least 0.20 is unicorn, from 0.15 up to but excluding 0.20 strong, from 0.10 up
  to but excluding 0.15 marginal, below 0.10 pass; every ROE has exactly one tier.
\<close>

theorem get_roe_tier_partition:
  "(roe \<ge> 20 / 100 \<longrightarrow> get_roe_tier roe = ROE_TIERS unicorn) \<and>
   (15 / 100 \<le> roe \<and> roe < 20 / 100 \<longrightarrow> get_roe_tier roe = ROE_TIERS strong) \<and>
   (10 / 100 \<le> roe \<and> roe < 15 / 100 \<longrightarrow> get_roe_tier roe = ROE_TIERS marginal) \<and>
   (roe < 10 / 100 \<longrightarrow> get_roe_tier roe = ROE_TIERS pass) \<and>
   (\<exists>!k. get_roe_tier roe = ROE_TIERS k)"
proof -
  have uniq: "\<exists>!k. get_roe_tier roe = ROE_TIERS k"
  proof -
    obtain k where k: "get_roe_tier roe = ROE_TIERS k"
      unfolding get_roe_tier_def by (cases "roe \<ge> 20 / 100"; cases "roe \<ge> 15 / 100";
        cases "roe \<ge> 10 / 100") auto
    show ?thesis
    proof (rule ex1I [of _ k])
      show "get_roe_tier roe = ROE_TIERS k" by (rule k)
    next
      fix j assume "get_roe_tier roe = ROE_TIERS j"
      with k have "ROE_TIERS j = ROE_TIERS k" by simp
      then show "j = k" by (simp add: ROE_TIERS_inj)
    qed
  qed
  show ?thesis
    using uniq by (simp add: get_roe_tier_def)
qed

theorem get_roe_tier_partition_witness:
  "get_roe_tier (20 / 100) = ROE_TIERS unicorn \<and>
   get_roe_tier (15 / 100) = ROE_TIERS strong \<and>
   get_roe_tier (10 / 100) = ROE_TIERS marginal \<and>
   get_roe_tier (5 / 100) = ROE_TIERS pass"
  using get_roe_tier_partition [of "20 / 100"] get_roe_tier_partition [of "15 / 100"]
    get_roe_tier_partition [of "10 / 100"] get_roe_tier_partition [of "5 / 100"]
  by simp

section \<open>Closed forms of the amortization loop\<close>

lemma amortization_loop_fst:
  "fst (amortization_loop k p r (b, t)) = b * (1 + r) ^ k - p * (\<Sum>i<k. (1 + r) ^ i)"
proof (induction k arbitrary: b t)
  case 0
  show ?case by simp
next
  case (Suc k)
  have "fst (amortization_loop (Suc k) p r (b, t)) =
        fst (amortization_loop k p r (b - (p - b * r), t + (p - b * r)))"
    by (simp add: Let_def)
  also have "\<dots> = (b - (p - b * r)) * (1 + r) ^ k - p * (\<Sum>i<k. (1 + r) ^ i)"
    by (rule Suc.IH)
  also have "\<dots> = b * (1 + r) ^ Suc k - p * (\<Sum>i<Suc k. (1 + r) ^ i)"
    by (simp add: algebra_simps)
  finally show ?case .
qed

lemma amortization_loop_sum:
  "fst (amortization_loop k p r (b, t)) + snd (amortization_loop k p r (b, t)) = b + t"
proof (induction k arbitrary: b t)
  case 0
  show ?case by simp
next
  case (Suc k)
  show ?case using Suc.IH [of "b - (p - b * r)" "t + (p - b * r)"]
    by (simp add: Let_def)
qed

lemma geometric_times_rate: "r * (\<Sum>i<k. (1 + r) ^ i) = (1 + r) ^ k - (1::real)"
  using power_diff_1_eq [of "1 + r" k] by simp

lemma paydown_closed:
  "calculate_principal_paydown_year1 L p a = (\<Sum>i<12. (1 + a / 12) ^ i) * (p - L * (a / 12))"
proof -
  let ?r = "a / 12"
  let ?S = "\<Sum>i<12::nat. (1 + ?r) ^ i"
  have "calculate_principal_paydown_year1 L p a = L - fst (amortization_loop 12 p ?r (L, 0))"
    using amortization_loop_sum [of 12 p ?r L 0]
    by (simp add: calculate_principal_paydown_year1_def Let_def)
  also have "\<dots> = L - (L * (1 + ?r) ^ 12 - p * ?S)"
    by (simp only: amortization_loop_fst)
  also have "\<dots> = p * ?S - L * ((1 + ?r) ^ 12 - 1)"
    by (simp add: algebra_simps)
  also have "\<dots> = p * ?S - L * (?r * ?S)"
    by (simp only: geometric_times_rate)
  also have "\<dots> = ?S * (p - L * ?r)"
    by (simp add: algebra_simps)
  finally show ?thesis .
qed


lemma power_int_neq_one:
  fixes q :: real
  assumes "0 < q" "q \<noteq> 1" "n \<noteq> 0"
  shows "power_int q n \<noteq> 1"
proof -
  consider "1 < q" "0 < n" | "1 < q" "n < 0" | "q < 1" "0 < n" | "q < 1" "n < 0"
    using assms by linarith
  then show ?thesis
  proof cases
    case 1
    then have "power_int q 0 < power_int q n" by (intro power_int_strict_increasing)
    then show ?thesis by simp
  next
    case 2
    then have "power_int q n < power_int q 0" by (intro power_int_strict_increasing)
    then show ?thesis by simp
  next
    case 3
    with assms have "power_int q n < power_int q 0" by (intro power_int_strict_decreasing)
    then show ?thesis by simp
  next
    case 4
    with assms have "power_int q 0 < power_int q n" by (intro power_int_strict_decreasing)
    then show ?thesis by simp
  qed
qed

lemma payment_zero_rate:
  "calculate_mortgage_payment L 0 years = py_truediv L (of_int (years * 12))"
  by (simp add: calculate_mortgage_payment_def)

lemma payment_nonzero_rate:
  assumes "a \<noteq> 0" "- 12 < a" "years \<noteq> 0"
  shows "calculate_mortgage_payment L a years =
         Inr (L * (a / 12 * power_int (1 + a / 12) (years * 12)) /
              (power_int (1 + a / 12) (years * 12) - 1))"
proof -
  have q: "0 < 1 + a / 12" "1 + a / 12 \<noteq> 1" using assms by auto
  have "power_int (1 + a / 12) (years * 12) \<noteq> 1"
    using q assms(3) by (intro power_int_neq_one) auto
  then show ?thesis
    using assms q by (simp add: calculate_mortgage_payment_def py_pow_def py_truediv_def Let_def)
qed

lemma payment_returned:
  assumes "- 12 < a" "years \<noteq> 0"
  shows "\<exists>p. calculate_mortgage_payment L a years = Inr p"
proof (cases "a = 0")
  case True
  then show ?thesis using assms by (simp add: payment_zero_rate py_truediv_def)
next
  case False
  then show ?thesis using assms by (simp add: payment_nonzero_rate)
qed


lemma retire_algebra:
  fixes L m G S :: real
  assumes "G \<noteq> 1" "m * S = G - 1"
  shows "L * G - (L * (m * G) / (G - 1)) * S = 0"
proof -
  have "(L * (m * G) / (G - 1)) * S = L * G * (m * S) / (G - 1)"
    by (simp add: mult_ac)
  also have "\<dots> = L * G * (G - 1) / (G - 1)"
    by (simp only: assms(2))
  also have "\<dots> = L * G"
    using assms(1) by simp
  finally show ?thesis by simp
qed

lemma paydown_of_payment:
  fixes L m G S :: real
  assumes "G \<noteq> 1" "G \<noteq> 0"
  shows "S * (L * (m * G) / (G - 1) - L * m) = S * (L * (m * G) / (G - 1)) / G"
    and "S * (L * (m * G) / (G - 1) - L * m) = L * (m * S) / (G - 1)"
  using assms by (simp_all add: field_simps)

lemma ratio_less_one:
  fixes x :: real
  assumes "0 < x" "x \<noteq> 1" "2 \<le> n"
  shows "(x - 1) / (x ^ n - 1) < 1"
proof (cases "1 < x")
  case True
  have "x ^ 1 < x ^ n" using True assms(3) by (intro power_strict_increasing) auto
  then show ?thesis using True by simp
next
  case False
  then have lt: "x < 1" using assms by simp
  have "x ^ n < x ^ 1" using lt assms by (intro power_strict_decreasing) auto
  moreover have "x ^ n < 1" using lt assms
    by (metis One_nat_def calculation less_trans power_one_right)
  ultimately show ?thesis by (simp add: field_simps)
qed


lemma geometric_pos:
  fixes q :: real
  assumes "0 < q"
  shows "0 < (\<Sum>i<12::nat. q ^ i)"
  using assms by (intro sum_pos) (auto simp: lessThan_empty_iff)

lemma power12_neq_one:
  fixes q :: real
  assumes "0 < q" "q \<noteq> 1"
  shows "q ^ 12 \<noteq> 1"
proof (cases "1 < q")
  case True
  then have "1 < q ^ 12" by (intro one_less_power) auto
  then show ?thesis by simp
next
  case False
  then have "q ^ 12 < 1" using assms by (simp add: power_less_one_iff)
  then show ?thesis by simp
qed

lemma paydown_positive:
  assumes "- 12 < a" "calculate_mortgage_payment L a years = Inr p" "0 < p"
  shows "0 < calculate_principal_paydown_year1 L p a"
proof (cases "a = 0")
  case True
  then show ?thesis using assms(3) by (simp add: paydown_closed)
next
  case False
  let ?m = "a / 12"
  let ?G = "power_int (1 + ?m) (years * 12)"
  let ?S = "\<Sum>i<12::nat. (1 + ?m) ^ i"
  have q: "0 < 1 + ?m" using assms(1) by simp
  have G0: "0 < ?G" using q by (rule zero_less_power_int)
  have Gn0: "?G \<noteq> 0" using G0 by linarith
  have G1: "?G \<noteq> 1" and p: "p = L * (?m * ?G) / (?G - 1)"
    using assms(2) False q
    by (auto simp: calculate_mortgage_payment_def py_pow_def py_truediv_def Let_def
             split: if_splits)
  have "?S * (p - L * ?m) = ?S * p / ?G"
    unfolding p by (rule paydown_of_payment(1) [OF G1 Gn0])
  then have "calculate_principal_paydown_year1 L p a = ?S * p / ?G"
    by (simp only: paydown_closed)
  moreover have "0 < ?S * p / ?G"
    using geometric_pos [OF q] assms(3) G0 by simp
  ultimately show ?thesis by simp
qed

lemma paydown_below_loan:
  assumes "- 12 < a" "0 < L" "1 < years"
  shows "\<exists>p. calculate_mortgage_payment L a years = Inr p \<and>
             calculate_principal_paydown_year1 L p a < L"
proof (cases "a = 0")
  case True
  have "L / real_of_int years < L / 1"
    using assms by (intro divide_strict_left_mono) auto
  then have "12 * L / (real_of_int years * 12) < L" by simp
  then show ?thesis
    using True assms by (simp add: payment_zero_rate py_truediv_def paydown_closed)
next
  case False
  let ?m = "a / 12"
  let ?q = "1 + ?m"
  let ?G = "power_int ?q (years * 12)"
  let ?S = "\<Sum>i<12::nat. ?q ^ i"
  let ?p = "L * (?m * ?G) / (?G - 1)"
  have q: "0 < ?q" "?q \<noteq> 1" using assms(1) False by auto
  have x: "0 < ?q ^ 12" "?q ^ 12 \<noteq> 1"
    using q power12_neq_one [of ?q] by auto
  have G: "?G = (?q ^ 12) ^ nat years"
    using assms(3) by (simp add: power_int_def flip: power_mult) (simp add: nat_mult_distrib mult.commute)
  have G0: "0 < ?G" using q by (intro zero_less_power_int)
  have Gn0: "?G \<noteq> 0" using G0 by linarith
  have G1: "?G \<noteq> 1" using q assms(3) by (intro power_int_neq_one) auto
  have pay: "calculate_mortgage_payment L a years = Inr ?p"
    using False assms by (intro payment_nonzero_rate) auto
  have ratio: "(?q ^ 12 - 1) / (?G - 1) < 1"
    unfolding G using x assms(3) by (intro ratio_less_one) auto
  have "?S * (?p - L * ?m) = L * (?m * ?S) / (?G - 1)"
    by (rule paydown_of_payment(2) [OF G1 Gn0])
  then have "calculate_principal_paydown_year1 L ?p a = L * (?m * ?S) / (?G - 1)"
    by (simp only: paydown_closed)
  also have "\<dots> = L * ((?q ^ 12 - 1) / (?G - 1))"
    by (simp only: geometric_times_rate) simp
  also have "\<dots> < L * 1"
    using ratio assms(2) by (intro mult_strict_left_mono)
  finally show ?thesis using pay by auto
qed

section \<open>Properties of the rent estimate\<close>

text \<open>
  C6. For every ZIP code and every square footage per unit, the estimated monthly rent lies
  in the closed interval from 800 to 2500; whenever the square footage times the rate of
  the ZIP code's tier (1.40 on the high-rent list, 1.20 on the mid-rent list, 1.00
  otherwise) lies in that interval, the estimate is that product.
\<close>

theorem estimate_market_rent_clamped:
  "800 \<le> estimate_market_rent z s \<and> estimate_market_rent z s \<le> 2500 \<and>
   (z \<in> Str ` set high_rent_zips \<and> 800 \<le> s * (140 / 100) \<and> s * (140 / 100) \<le> 2500
      \<longrightarrow> estimate_market_rent z s = s * (140 / 100)) \<and>
   (z \<in> Str ` set mid_rent_zips \<and> 800 \<le> s * (120 / 100) \<and> s * (120 / 100) \<le> 2500
      \<longrightarrow> estimate_market_rent z s = s * (120 / 100)) \<and>
   (z \<notin> Str ` set high_rent_zips \<and> z \<notin> Str ` set mid_rent_zips \<and> 800 \<le> s \<and> s \<le> 2500
      \<longrightarrow> estimate_market_rent z s = s)"
proof -
  have bounds: "800 \<le> estimate_market_rent z s \<and> estimate_market_rent z s \<le> 2500"
    by (simp add: estimate_market_rent_def Let_def)
  have mem: "py_in z xs \<longleftrightarrow> z \<in> Str ` set xs" for xs
    by (cases z) (auto simp: py_in_def)
  have disjoint: "z \<in> Str ` set mid_rent_zips \<Longrightarrow> z \<notin> Str ` set high_rent_zips"
    by (auto simp: mid_rent_zips_def high_rent_zips_def)
  have high: "z \<in> Str ` set high_rent_zips \<Longrightarrow> 800 \<le> s * (140 / 100)
      \<Longrightarrow> s * (140 / 100) \<le> 2500 \<Longrightarrow> estimate_market_rent z s = s * (140 / 100)"
    by (simp add: estimate_market_rent_def Let_def mem)
  have mid: "z \<in> Str ` set mid_rent_zips \<Longrightarrow> 800 \<le> s * (120 / 100)
      \<Longrightarrow> s * (120 / 100) \<le> 2500 \<Longrightarrow> estimate_market_rent z s = s * (120 / 100)"
    using disjoint by (simp add: estimate_market_rent_def Let_def mem)
  have low: "z \<notin> Str ` set high_rent_zips \<Longrightarrow> z \<notin> Str ` set mid_rent_zips \<Longrightarrow> 800 \<le> s
      \<Longrightarrow> s \<le> 2500 \<Longrightarrow> estimate_market_rent z s = s"
    by (simp add: estimate_market_rent_def Let_def mem)
  show ?thesis using bounds high mid low by blast
qed

theorem estimate_market_rent_clamped_witness:
  "estimate_market_rent (Str ''75201'') 1000 = 1400 \<and>
   estimate_market_rent (Str ''75206'') 1000 = 1200 \<and>
   estimate_market_rent (Str ''75001'') 1000 = 1000 \<and>
   estimate_market_rent (Str ''75201'') 0 = 800 \<and>
   estimate_market_rent (Str ''75201'') 1000000 = 2500 \<and>
   estimate_market_rent (Str ''75201'') (- 5) = 800"
  using estimate_market_rent_clamped [of "Str ''75201''" 1000]
    estimate_market_rent_clamped [of "Str ''75206''" 1000]
    estimate_market_rent_clamped [of "Str ''75001''" 1000]
  by (simp add: high_rent_zips_def mid_rent_zips_def)
     (simp add: estimate_market_rent_def py_in_def high_rent_zips_def)

section \<open>Properties of the mortgage arithmetic\<close>

text \<open>
  C5. When the monthly rate (the annual rate divided by 12) is exactly zero, the payment is
  the quotient of the loan amount by the number of payments, years times 12, for every loan
  amount and term: the outcome is that of the division itself, which is the value of the
  quotient for every term other than zero.
\<close>

theorem zero_rate_payment:
  "annual_rate / 12 = 0 \<Longrightarrow>
     calculate_mortgage_payment loan_amount annual_rate years =
       py_truediv loan_amount (of_int (years * 12)) \<and>
     (years \<noteq> 0 \<longrightarrow>
        calculate_mortgage_payment loan_amount annual_rate years =
          Inr (loan_amount / of_int (years * 12)))"
  by (simp add: calculate_mortgage_payment_def py_truediv_def)

theorem zero_rate_payment_witness:
  "(0::real) / 12 = 0 \<and> (10::int) \<noteq> 0 \<and>
   calculate_mortgage_payment 120000 0 10 = Inr 1000"
  using zero_rate_payment [of 0 120000 10] by (simp add: py_truediv_def)

text \<open>
  C3. For every loan amount above zero, annual rate above zero and term of \<open>n\<close> years, the
  payment is returned, and the month-by-month simulation run for \<open>n\<close> times 12 months with
  that payment leaves a balance of exactly zero.
\<close>

theorem payment_retires_loan:
  assumes "0 < L" "0 < r" "0 < n"
  shows "\<exists>p. calculate_mortgage_payment L r n = Inr p \<and>
             ending_balance (nat (n * 12)) L p r = 0"
proof -
  let ?q = "1 + r / 12"
  let ?k = "nat (n * 12)"
  let ?G = "?q ^ ?k"
  let ?p = "L * (r / 12 * ?G) / (?G - 1)"
  have pw: "power_int ?q (n * 12) = ?G"
    using assms(3) by (simp add: power_int_def)
  have G: "1 < ?G" using assms by (intro one_less_power) auto
  have pay: "calculate_mortgage_payment L r n = Inr ?p"
    using assms payment_nonzero_rate [of r n L] by (simp add: pw)
  have "ending_balance ?k L ?p r = L * ?G - ?p * (\<Sum>i<?k. ?q ^ i)"
    by (simp only: ending_balance_def amortization_loop_fst)
  also have "\<dots> = 0"
    using G by (intro retire_algebra geometric_times_rate) simp
  finally show ?thesis using pay by blast
qed

theorem payment_retires_loan_witness:
  "(0::real) < 750000 \<and> (0::real) < 7 / 100 \<and> (0::int) < 30 \<and>
   (\<exists>p. calculate_mortgage_payment 750000 (7 / 100) 30 = Inr p \<and>
        ending_balance 360 750000 p (7 / 100) = 0)"
  using payment_retires_loan [of 750000 "7 / 100" 30] by simp

text \<open>
  C4, as stated, fails: a loan amount of zero (a purchase price of zero) has a payment of
  zero and a Year-1 paydown of zero, which is not strictly less than the loan amount,
  although the term of 30 years exceeds one year.
\<close>

theorem paydown_zero_loan_counterexample:
  "calculate_mortgage_payment 0 (7 / 100) 30 = Inr 0 \<and> (1::int) < 30 \<and>
   \<not> calculate_principal_paydown_year1 0 0 (7 / 100) < 0"
  using payment_nonzero_rate [of "7 / 100" 30 0] by (simp add: paydown_closed)

text \<open>
  C4, amended. For every annual rate above \<open>-12\<close> (a monthly rate above minus one hundred
  per cent, so every rate that is not negative): when the loan amount is above zero and
  the term exceeds one year, the payment is returned and the Year-1 paydown on it is
  strictly less than the loan amount; and whenever a payment is returned and is strictly
  positive, the Year-1 paydown on it is strictly positive.
\<close>

theorem paydown_bounds:
  assumes "- 12 < annual_rate"
  shows "(0 < L \<and> 1 < years \<longrightarrow>
            (\<exists>p. calculate_mortgage_payment L annual_rate years = Inr p \<and>
                 calculate_principal_paydown_year1 L p annual_rate < L)) \<and>
         (\<forall>p. calculate_mortgage_payment L annual_rate years = Inr p \<and> 0 < p \<longrightarrow>
              0 < calculate_principal_paydown_year1 L p annual_rate)"
  using assms paydown_below_loan [of annual_rate L years]
    paydown_positive [of annual_rate L years] by blast

theorem paydown_bounds_witness:
  "- 12 < (0::real) \<and> (0::real) < 1200 \<and> (1::int) < 2 \<and>
   calculate_mortgage_payment 1200 0 2 = Inr 50 \<and> (0::real) < 50 \<and>
   calculate_principal_paydown_year1 1200 50 0 < 1200 \<and>
   0 < calculate_principal_paydown_year1 1200 50 0"
  using paydown_bounds [of 0 1200 2]
  by (simp add: calculate_mortgage_payment_def py_truediv_def)

text \<open>
  The bound on the rate is needed: at an annual rate of \<open>-12\<close> the first month retires
  the whole loan, and the Year-1 paydown equals the loan amount.
\<close>

lemma paydown_rate_minus_twelve:
  "calculate_mortgage_payment 100 (- 12) 2 = Inr 0 \<and>
   calculate_principal_paydown_year1 100 0 (- 12) = 100"
  by (simp add: calculate_mortgage_payment_def py_pow_def py_truediv_def paydown_closed
      lessThan_nat_numeral lessThan_Suc)

section \<open>Properties of the property valuation\<close>

lemma calculate_roe_returns:
  assumes "- 12 < self_rate self" "self_term self \<noteq> 0" "sqft \<in> insert NoneV (range Num)"
  shows "\<exists>d. calculate_roe self price units sqft zip_code rent = Inr d"
proof -
  obtain p where p: "calculate_mortgage_payment (price - price * self_down_pct self)
      (self_rate self) (self_term self) = Inr p"
    using payment_returned [OF assms(1,2)] by blast
  show ?thesis
    using assms(3) p
    by (cases rent) (auto simp: calculate_roe_def Let_def as_number_def truthy_def)
qed

lemma calculate_roe_ratios:
  assumes "calculate_roe self price units sqft zip_code rent = Inr d"
  shows "\<exists>total_return cash_flow noi.
     map_of d ''purchase_price'' = Some (Num price) \<and>
     map_of d ''down_payment'' = Some (Num (price * self_down_pct self)) \<and>
     map_of d ''roe'' = Some (Num (if price * self_down_pct self > 0
        then total_return / (price * self_down_pct self) else 0)) \<and>
     map_of d ''coc'' = Some (Num (if price * self_down_pct self > 0
        then cash_flow / (price * self_down_pct self) else 0)) \<and>
     map_of d ''cap_rate'' = Some (Num (if price > 0 then noi / price else 0))"
  using assms
  by (auto simp: calculate_roe_def Let_def split: sum.splits)

lemma calculate_roe_metrics:
  assumes "calculate_roe self price units sqft zip_code rent = Inr d"
  shows "\<exists>x. map_of d ''roe'' = Some (Num x) \<and>
     map_of d ''meets_hurdle'' = Some (Bool (15 / 100 \<le> x)) \<and>
     map_of d ''tier'' = Some (TierV (get_roe_tier x))"
  using assms
  by (auto simp: calculate_roe_def Let_def split: sum.splits)

text \<open>
  C7. For every property input with a numeric or absent square footage, under a
  configuration whose annual rate is above \<open>-12\<close> and whose term is not zero (the
  configuration alone decides whether the mortgage payment can be computed), the
  calculation returns a result; when the down payment is zero the result's ROE and
  cash-on-cash return are exactly zero, and when the purchase price is zero its cap rate
  is exactly zero.
\<close>

theorem calculate_roe_degenerate:
  assumes "- 12 < self_rate self" "self_term self \<noteq> 0" "sqft \<in> insert NoneV (range Num)"
  shows "\<exists>d. calculate_roe self price units sqft zip_code rent = Inr d \<and>
     map_of d ''purchase_price'' = Some (Num price) \<and>
     map_of d ''down_payment'' = Some (Num (price * self_down_pct self)) \<and>
     (price * self_down_pct self = 0 \<longrightarrow>
        map_of d ''roe'' = Some (Num 0) \<and> map_of d ''coc'' = Some (Num 0)) \<and>
     (price = 0 \<longrightarrow> map_of d ''cap_rate'' = Some (Num 0))"
proof -
  obtain d where d: "calculate_roe self price units sqft zip_code rent = Inr d"
    using calculate_roe_returns [OF assms] by blast
  from calculate_roe_ratios [OF d] show ?thesis
    using d by auto
qed

theorem calculate_roe_degenerate_witness:
  "- 12 < self_rate default_calculator \<and> self_term default_calculator \<noteq> 0 \<and>
   (\<exists>d. calculate_roe default_calculator 0 4 NoneV (Str ''75201'') None = Inr d \<and>
        map_of d ''down_payment'' = Some (Num 0) \<and>
        map_of d ''roe'' = Some (Num 0) \<and> map_of d ''coc'' = Some (Num 0) \<and>
        map_of d ''cap_rate'' = Some (Num 0))"
proof -
  have h: "- 12 < self_rate default_calculator" "self_term default_calculator \<noteq> 0"
    by (simp_all add: default_calculator_def)
  have "\<exists>d. calculate_roe default_calculator 0 4 NoneV (Str ''75201'') None = Inr d \<and>
        map_of d ''down_payment'' = Some (Num 0) \<and>
        map_of d ''roe'' = Some (Num 0) \<and> map_of d ''coc'' = Some (Num 0) \<and>
        map_of d ''cap_rate'' = Some (Num 0)"
    using calculate_roe_degenerate [OF h, of NoneV 0 4 "Str ''75201''" None] by auto
  with h show ?thesis by blast
qed

text \<open>
  C9. Every result of the calculation carries a hurdle flag that is true exactly when its
  ROE is at least 0.15, which is exactly when its tier is unicorn or strong.
\<close>

theorem calculate_roe_hurdle_consistent:
  assumes "calculate_roe self price units sqft zip_code rent = Inr d"
  shows "\<exists>x t. map_of d ''roe'' = Some (Num x) \<and>
     map_of d ''meets_hurdle'' = Some (Bool (15 / 100 \<le> x)) \<and>
     map_of d ''tier'' = Some (TierV t) \<and>
     (15 / 100 \<le> x \<longleftrightarrow> t = ROE_TIERS unicorn \<or> t = ROE_TIERS strong)"
proof -
  obtain x where x: "map_of d ''roe'' = Some (Num x)"
      "map_of d ''meets_hurdle'' = Some (Bool (15 / 100 \<le> x))"
      "map_of d ''tier'' = Some (TierV (get_roe_tier x))"
    using calculate_roe_metrics [OF assms] by blast
  have "15 / 100 \<le> x \<longleftrightarrow>
        get_roe_tier x = ROE_TIERS unicorn \<or> get_roe_tier x = ROE_TIERS strong"
    by (simp add: get_roe_tier_def ROE_TIERS_inj)
  with x show ?thesis by blast
qed

lemma zero_rate_example:
  "calculate_roe zero_rate_calculator 1000000 10 (Num 10000) (Str ''75001'') None =
     Inr example_result"
  by (simp add: calculate_roe_def zero_rate_calculator_def Let_def truthy_def as_number_def
      estimate_market_rent_def py_in_def high_rent_zips_def mid_rent_zips_def
      payment_zero_rate py_truediv_def paydown_closed get_roe_tier_def example_result_def)

theorem calculate_roe_hurdle_consistent_witness:
  "\<exists>d. calculate_roe zero_rate_calculator 1000000 10 (Num 10000) (Str ''75001'') None = Inr d \<and>
     map_of d ''roe'' = Some (Num (39 / 125)) \<and>
     map_of d ''meets_hurdle'' = Some (Bool True) \<and>
     map_of d ''tier'' = Some (TierV (ROE_TIERS unicorn))"
  using calculate_roe_hurdle_consistent [OF zero_rate_example]
  by (simp add: zero_rate_example example_result_def)

section \<open>Properties of the portfolio aggregation\<close>

lemma calculate_roe_keys:
  assumes "calculate_roe self price units sqft zip_code rent = Inr d"
  shows "map fst d = roe_calc_keys"
  using assms
  by (auto simp: calculate_roe_def roe_calc_keys_def Let_def split: sum.splits)

lemma row_roe_calc_cong:
  assumes "r1 ''price'' = r2 ''price''" "r1 ''units'' = r2 ''units''"
    "r1 ''sqft'' = r2 ''sqft''" "r1 ''zip_code'' = r2 ''zip_code''"
  shows "row_roe_calc self r1 = row_roe_calc self r2"
  unfolding row_roe_calc_def py_getitem_def row_get_def assms by (rule refl)

lemma row_roe_calc_keys:
  assumes "row_roe_calc self r = Inr d"
  shows "map fst d = roe_calc_keys"
  using assms
  by (auto simp: row_roe_calc_def Let_def calculate_roe_keys split: sum.splits)

lemma merged_computed_column:
  assumes "map fst d = roe_calc_keys" "k \<in> set roe_calc_keys"
  shows "(r ++ map_of d) k = map_of d k"
proof -
  have "k \<in> fst ` set d" using assms by (metis set_map)
  then obtain v where "map_of d k = Some v"
    by (metis map_of_eq_None_iff not_None_eq)
  then show ?thesis by (simp add: map_add_def)
qed

lemma portfolio_loop_same_computed:
  assumes "list_all2 same_inputs rows1 rows2" "list_all2 same_computed acc1 acc2"
  shows "list_all2 same_computed (portfolio_loop self rows1 acc1)
           (portfolio_loop self rows2 acc2)"
  using assms
proof (induction rows1 rows2 arbitrary: acc1 acc2 rule: list_all2_induct)
  case Nil
  then show ?case by simp
next
  case (Cons r1 rows1 r2 rows2)
  have eq: "row_roe_calc self r1 = row_roe_calc self r2"
    using Cons.hyps(1) by (intro row_roe_calc_cong) (simp_all add: same_inputs_def)
  show ?case
  proof (cases "row_roe_calc self r2")
    case (Inl e)
    then show ?thesis using eq Cons by simp
  next
    case (Inr d)
    have keys: "map fst d = roe_calc_keys" using Inr by (rule row_roe_calc_keys)
    have "same_computed (r1 ++ map_of d) (r2 ++ map_of d)"
      by (simp add: same_computed_def merged_computed_column [OF keys])
    then have "list_all2 same_computed (acc1 @ [r1 ++ map_of d]) (acc2 @ [r2 ++ map_of d])"
      using Cons.prems by (simp add: list_all2_appendI)
    then show ?thesis using eq Inr Cons.IH by simp
  qed
qed

lemma row_roe_calc_example:
  "row_roe_calc zero_rate_calculator (example_listing(''monthly_rent_per_unit'' \<mapsto> v)) =
     Inr example_result"
  by (simp add: row_roe_calc_def py_getitem_def row_get_def example_listing_def
      as_number_def zero_rate_example)

text \<open>
  C10. The batch calls the calculation without a monthly rent. Two input tables whose rows
  agree, position by position, on price, unit count, square footage and ZIP code (so that
  they may differ in a monthly-rent column) have the same outcome: the same exception, or
  results whose rows agree on every computed column.
\<close>

theorem analyze_portfolio_ignores_rent:
  assumes "list_all2 same_inputs rows1 rows2"
  shows "rel_sum (=) (list_all2 same_computed)
           (analyze_portfolio self rows1) (analyze_portfolio self rows2)"
proof -
  have rel: "list_all2 same_computed (portfolio_loop self rows1 [])
               (portfolio_loop self rows2 [])"
    using assms by (intro portfolio_loop_same_computed) simp_all
  then have "portfolio_loop self rows1 [] = [] \<longleftrightarrow> portfolio_loop self rows2 [] = []"
    by (auto dest: list_all2_lengthD)
  then show ?thesis
    using rel by (auto simp: analyze_portfolio_def Let_def)
qed

theorem analyze_portfolio_ignores_rent_witness:
  "list_all2 same_inputs
     [example_listing(''monthly_rent_per_unit'' \<mapsto> Num 5000)]
     [example_listing(''monthly_rent_per_unit'' \<mapsto> Num 1)] \<and>
   rel_sum (=) (list_all2 same_computed)
     (analyze_portfolio zero_rate_calculator
        [example_listing(''monthly_rent_per_unit'' \<mapsto> Num 5000)])
     (analyze_portfolio zero_rate_calculator
        [example_listing(''monthly_rent_per_unit'' \<mapsto> Num 1)]) \<and>
   analyze_portfolio zero_rate_calculator
     [example_listing(''monthly_rent_per_unit'' \<mapsto> Num 5000)] =
     Inr [example_listing(''monthly_rent_per_unit'' \<mapsto> Num 5000) ++ map_of example_result] \<and>
   (example_listing(''monthly_rent_per_unit'' \<mapsto> Num 5000) ++ map_of example_result)
     ''monthly_rent_per_unit'' = Some (Num 1000)"
proof -
  have same: "list_all2 same_inputs
     [example_listing(''monthly_rent_per_unit'' \<mapsto> Num 5000)]
     [example_listing(''monthly_rent_per_unit'' \<mapsto> Num 1)]"
    by (simp add: same_inputs_def)
  show ?thesis
    using same analyze_portfolio_ignores_rent [OF same, of zero_rate_calculator]
    by (simp add: analyze_portfolio_def row_roe_calc_example example_result_def)
qed

lemma portfolio_loop_length:
  "length (portfolio_loop self rows results) =
     length results + length (filter (\<lambda>r. \<not> isl (row_roe_calc self r)) rows)"
  by (induction rows arbitrary: results) (auto split: sum.splits)

text \<open>
  What holds of the batch: when it returns, the result has one row for each input row
  whose calculation succeeds, that is \<open>N - K\<close> rows; and it returns exactly when at least
  one calculation succeeds.
\<close>

lemma analyze_portfolio_rows:
  assumes "analyze_portfolio self rows = Inr result"
  shows "length result =
           length rows - length (filter (\<lambda>r. isl (row_roe_calc self r)) rows)"
proof -
  have "length (filter (\<lambda>r. \<not> isl (row_roe_calc self r)) rows) =
        length rows - length (filter (\<lambda>r. isl (row_roe_calc self r)) rows)"
    using sum_length_filter_compl [of "\<lambda>r. isl (row_roe_calc self r)" rows] by simp
  then show ?thesis
    using assms portfolio_loop_length [of self rows "[]"]
    by (auto simp: analyze_portfolio_def Let_def split: if_splits)
qed

lemma analyze_portfolio_returns_iff:
  "(\<exists>result. analyze_portfolio self rows = Inr result) \<longleftrightarrow>
     (\<exists>r \<in> set rows. \<not> isl (row_roe_calc self r))"
proof -
  have "portfolio_loop self rows [] = [] \<longleftrightarrow>
        filter (\<lambda>r. \<not> isl (row_roe_calc self r)) rows = []"
    using portfolio_loop_length [of self rows "[]"] by (metis add_0 length_0_conv list.size(3))
  then show ?thesis
    by (auto simp: analyze_portfolio_def Let_def filter_empty_conv)
qed

text \<open>
  C1, evaluated where the code departs from it: a table of one row without a price (\<open>N\<close> =
  \<open>K\<close> = 1) and the empty table (\<open>N\<close> = \<open>K\<close> = 0). The row's calculation raises, the row
  is skipped, and the batch then raises \<^verbatim>\<open>KeyError\<close> for the column \<^verbatim>\<open>roe\<close> instead of
  returning a result without rows.
\<close>

theorem analyze_portfolio_all_rows_fail:
  "row_roe_calc default_calculator
     [''address'' \<mapsto> Str ''1 Main St'', ''units'' \<mapsto> Num 4, ''zip_code'' \<mapsto> Str ''75201''] =
     Inl (KeyError ''price'') \<and>
   analyze_portfolio default_calculator
     [[''address'' \<mapsto> Str ''1 Main St'', ''units'' \<mapsto> Num 4, ''zip_code'' \<mapsto> Str ''75201'']] =
     Inl (KeyError ''roe'') \<and>
   analyze_portfolio default_calculator [] = Inl (KeyError ''roe'')"
  by (simp add: analyze_portfolio_def row_roe_calc_def py_getitem_def)

section \<open>Properties of the summary formatting\<close>

text \<open>
  A precision above zero gives exactly that many digits after the decimal point, and the
  thousands separators are inserted between the digits without changing them.
\<close>

lemma dec_digits_length:
  "n < 10 ^ k \<Longrightarrow> 0 < k \<Longrightarrow> length (dec_digits n) \<le> k"
proof (induction n arbitrary: k rule: dec_digits.induct)
  case (1 n)
  show ?case
  proof (cases "n < 10")
    case True
    have "dec_digits n = [digit_char n]" using True by (simp add: dec_digits.simps)
    then show ?thesis using "1.prems"(2) by simp
  next
    case False
    obtain j where j: "k = Suc j" using "1.prems"(2) by (cases k) auto
    have "j \<noteq> 0"
    proof
      assume "j = 0"
      then have "n < 10" using "1.prems"(1) j by simp
      then show False using False by simp
    qed
    moreover have "n div 10 < 10 ^ j"
      using "1.prems"(1) j by (simp add: less_mult_imp_div_less mult.commute)
    ultimately have IH: "length (dec_digits (n div 10)) \<le> j"
      using "1.IH" [OF False, of j] by simp
    have "dec_digits n = dec_digits (n div 10) @ [digit_char (n mod 10)]"
      using False by (simp add: dec_digits.simps [of n])
    then show ?thesis using IH j by simp
  qed
qed


lemma format_fixed_places:
  assumes "0 < prec"
  shows "\<exists>whole frac. format_fixed grouping prec x = whole @ ''.'' @ frac \<and> length frac = prec"
proof -
  define n where "n = nat (round_half_even (\<bar>x\<bar> * 10 ^ prec))"
  define frac where "frac = replicate (prec - length (dec_digits (n mod 10 ^ prec))) CHR ''0''
      @ dec_digits (n mod 10 ^ prec)"
  define whole where "whole = (if x < 0 then ''-'' else [])
         @ (if grouping then thousands (dec_digits (n div 10 ^ prec))
            else dec_digits (n div 10 ^ prec))"
  have "length (dec_digits (n mod 10 ^ prec)) \<le> prec"
    using assms by (intro dec_digits_length) auto
  then have len: "length frac = prec"
    by (simp add: frac_def)
  have "format_fixed grouping prec x = whole @ ''.'' @ frac"
    using assms by (simp add: format_fixed_def Let_def whole_def frac_def n_def)
  with len show ?thesis by blast
qed

lemma format_percent_places:
  assumes "0 < prec"
  shows "\<exists>whole frac. format_percent prec x = whole @ ''.'' @ frac @ ''%'' \<and> length frac = prec"
  using format_fixed_places [OF assms, of False "x * 100"]
  by (auto simp: format_percent_def)

lemma group3_digits:
  "CHR '','' \<notin> set ds \<Longrightarrow> filter (\<lambda>c. c \<noteq> CHR '','') (group3 ds) = ds"
  by (induction ds rule: group3.induct) auto

lemma thousands_digits:
  "CHR '','' \<notin> set ds \<Longrightarrow> filter (\<lambda>c. c \<noteq> CHR '','') (thousands ds) = ds"
  using group3_digits [of "rev ds"] by (simp add: thousands_def rev_filter [symmetric])

text \<open>
  Every dictionary that \<^verbatim>\<open>calculate_roe\<close> returns is such a result record: a tier
  dictionary under \<^verbatim>\<open>tier\<close> and a number under every key the summary reads.
\<close>

lemma calculate_roe_summary_ready:
  assumes "calculate_roe self price units sqft zip_code rent = Inr d"
  shows "\<exists>t v. map_of d ''tier'' = Some (TierV t) \<and>
           (\<forall>k \<in> set summary_keys. map_of d k = Some (Num (v k)))"
proof -
  define v where "v k = (case map_of d k of Some (Num x) \<Rightarrow> x | _ \<Rightarrow> 0)" for k
  have "map_of d ''tier'' = Some (TierV (get_roe_tier (v ''roe''))) \<and>
        (\<forall>k \<in> set summary_keys. map_of d k = Some (Num (v k)))"
    using assms unfolding v_def
    by (auto simp: calculate_roe_def Let_def summary_keys_def split: sum.splits)
  then show ?thesis by blast
qed

lemma field_number:
  "roe_data k = Some (Num x) \<Longrightarrow> field roe_data k f = Inr (f x)"
  by (simp add: field_def py_getitem_def format_number_def)

text \<open>
  C8, amended. For every result record (a tier dictionary under \<^verbatim>\<open>tier\<close> and a number
  under every key the summary reads) the summary is returned and is the fixed text of
  captions filled, in this order, with: ROE as a percentage to one decimal; purchase
  price, down payment and loan amount as currency (thousands separators, no decimals);
  the unit count without decimals; rent per unit, gross rent and operating expenses as
  currency; the operating-expense ratio as a percentage without decimals; NOI (twice),
  debt service and cash flow as currency; cash-on-cash as a percentage to one decimal;
  cash flow, principal paydown, appreciation and total return as currency; ROE as a
  percentage to one decimal; the cap rate as a percentage to two decimals.
\<close>

theorem format_roe_summary_layout:
  assumes "roe_data ''tier'' = Some (TierV t)"
    and "\<forall>k \<in> set summary_keys. roe_data k = Some (Num (v k))"
  shows "format_roe_summary roe_data =
     Inr (fill (summary_captions (label t))
       [format_percent 1 (v ''roe''),
        format_fixed True 0 (v ''purchase_price''),
        format_fixed True 0 (v ''down_payment''),
        format_fixed True 0 (v ''loan_amount''),
        format_fixed False 0 (v ''units''),
        format_fixed True 0 (v ''monthly_rent_per_unit''),
        format_fixed True 0 (v ''annual_gross_rent''),
        format_fixed True 0 (v ''annual_opex''),
        format_percent 0 (v ''opex_ratio''),
        format_fixed True 0 (v ''noi''),
        format_fixed True 0 (v ''noi''),
        format_fixed True 0 (v ''annual_debt_service''),
        format_fixed True 0 (v ''cash_flow''),
        format_percent 1 (v ''coc''),
        format_fixed True 0 (v ''cash_flow''),
        format_fixed True 0 (v ''principal_paydown''),
        format_fixed True 0 (v ''appreciation''),
        format_fixed True 0 (v ''total_return''),
        format_percent 1 (v ''roe''),
        format_percent 2 (v ''cap_rate'')])"
proof -
  have num: "field roe_data k f = Inr (f (v k))" if "k \<in> set summary_keys" for k f
    using assms(2) that by (intro field_number) blast
  have fields:
    "field roe_data ''roe'' f = Inr (f (v ''roe''))"
    "field roe_data ''purchase_price'' f = Inr (f (v ''purchase_price''))"
    "field roe_data ''down_payment'' f = Inr (f (v ''down_payment''))"
    "field roe_data ''loan_amount'' f = Inr (f (v ''loan_amount''))"
    "field roe_data ''units'' f = Inr (f (v ''units''))"
    "field roe_data ''monthly_rent_per_unit'' f = Inr (f (v ''monthly_rent_per_unit''))"
    "field roe_data ''annual_gross_rent'' f = Inr (f (v ''annual_gross_rent''))"
    "field roe_data ''annual_opex'' f = Inr (f (v ''annual_opex''))"
    "field roe_data ''opex_ratio'' f = Inr (f (v ''opex_ratio''))"
    "field roe_data ''noi'' f = Inr (f (v ''noi''))"
    "field roe_data ''annual_debt_service'' f = Inr (f (v ''annual_debt_service''))"
    "field roe_data ''cash_flow'' f = Inr (f (v ''cash_flow''))"
    "field roe_data ''coc'' f = Inr (f (v ''coc''))"
    "field roe_data ''principal_paydown'' f = Inr (f (v ''principal_paydown''))"
    "field roe_data ''appreciation'' f = Inr (f (v ''appreciation''))"
    "field roe_data ''total_return'' f = Inr (f (v ''total_return''))"
    "field roe_data ''cap_rate'' f = Inr (f (v ''cap_rate''))" for f
    by (rule num, simp add: summary_keys_def)+
  show ?thesis
    by (simp add: format_roe_summary_def py_getitem_def assms(1) tier_label_def fields
        summary_captions_def)
qed


lemma example_renderings:
  "format_percent 1 (39 / 125) = ''31.2%''"
  "format_percent 1 (53 / 250) = ''21.2%''"
  "format_percent 0 (35 / 100) = ''35%''"
  "format_percent 2 (39 / 500) = ''7.80%''"
  "format_percent 1 (35 / 100) = ''35.0%''"
  "format_percent 1 (39 / 500) = ''7.8%''"
  "format_fixed True 0 1000000 = ''1,000,000''"
  "format_fixed True 0 250000 = ''250,000''"
  "format_fixed True 0 750000 = ''750,000''"
  "format_fixed False 0 10 = ''10''"
  "format_fixed True 0 1000 = ''1,000''"
  "format_fixed True 0 120000 = ''120,000''"
  "format_fixed True 0 42000 = ''42,000''"
  "format_fixed True 0 78000 = ''78,000''"
  "format_fixed True 0 25000 = ''25,000''"
  "format_fixed True 0 53000 = ''53,000''"
  "format_fixed True 0 0 = ''0''"
  by (simp_all add: format_percent_def format_fixed_def round_half_even_def Let_def
      digit_char_def thousands_def dec_digits.simps)

theorem format_roe_summary_layout_witness:
  "map_of example_result ''tier'' = Some (TierV (ROE_TIERS unicorn)) \<and>
   map (map_of example_result) summary_keys =
     map (\<lambda>x. Some (Num x))
       [39 / 125, 1000000, 250000, 750000, 10, 1000, 120000, 42000, 35 / 100, 78000,
        25000, 53000, 53 / 250, 25000, 0, 78000, 39 / 500] \<and>
   format_roe_summary (map_of example_result) =
     Inr (fill (summary_captions (label (ROE_TIERS unicorn)))
       [''31.2%'', ''1,000,000'', ''250,000'', ''750,000'', ''10'', ''1,000'', ''120,000'',
        ''42,000'', ''35%'', ''78,000'', ''78,000'', ''25,000'', ''53,000'', ''21.2%'',
        ''53,000'', ''25,000'', ''0'', ''78,000'', ''31.2%'', ''7.80%''])"
proof -
  define v where "v k = (case map_of example_result k of Some (Num x) \<Rightarrow> x | _ \<Rightarrow> 0)" for k
  have tier: "map_of example_result ''tier'' = Some (TierV (ROE_TIERS unicorn))"
    by (simp add: example_result_def)
  have nums: "\<forall>k \<in> set summary_keys. map_of example_result k = Some (Num (v k))"
    by (simp add: summary_keys_def example_result_def v_def)
  have vals: "v ''roe'' = 39 / 125" "v ''purchase_price'' = 1000000"
    "v ''down_payment'' = 250000" "v ''loan_amount'' = 750000" "v ''units'' = 10"
    "v ''monthly_rent_per_unit'' = 1000" "v ''annual_gross_rent'' = 120000"
    "v ''annual_opex'' = 42000" "v ''opex_ratio'' = 35 / 100" "v ''noi'' = 78000"
    "v ''annual_debt_service'' = 25000" "v ''cash_flow'' = 53000" "v ''coc'' = 53 / 250"
    "v ''principal_paydown'' = 25000" "v ''appreciation'' = 0" "v ''total_return'' = 78000"
    "v ''cap_rate'' = 39 / 500"
    by (simp_all add: v_def example_result_def)
  have "format_roe_summary (map_of example_result) =
     Inr (fill (summary_captions (label (ROE_TIERS unicorn)))
       [''31.2%'', ''1,000,000'', ''250,000'', ''750,000'', ''10'', ''1,000'', ''120,000'',
        ''42,000'', ''35%'', ''78,000'', ''78,000'', ''25,000'', ''53,000'', ''21.2%'',
        ''53,000'', ''25,000'', ''0'', ''78,000'', ''31.2%'', ''7.80%''])"
    using format_roe_summary_layout [OF tier nums]
    by (simp only: vals example_renderings)
  moreover have "map (map_of example_result) summary_keys =
     map (\<lambda>x. Some (Num x))
       [39 / 125, 1000000, 250000, 750000, 10, 1000, 120000, 42000, 35 / 100, 78000,
        25000, 53000, 53 / 250, 25000, 0, 78000, 39 / 500]"
    by (simp add: summary_keys_def example_result_def)
  ultimately show ?thesis using tier by blast
qed

lemma example_summary:
  "format_roe_summary (map_of example_result) =
     Inr (fill (summary_captions (label (ROE_TIERS unicorn)))
       [''31.2%'', ''1,000,000'', ''250,000'', ''750,000'', ''10'', ''1,000'', ''120,000'',
        ''42,000'', ''35%'', ''78,000'', ''78,000'', ''25,000'', ''53,000'', ''21.2%'',
        ''53,000'', ''25,000'', ''0'', ''78,000'', ''31.2%'', ''7.80%''])"
  by (simp add: format_roe_summary_def py_getitem_def tier_label_def field_def
      format_number_def example_result_def summary_captions_def
      format_percent_def format_fixed_def round_half_even_def Let_def
      digit_char_def thousands_def dec_digits.simps)

text \<open>
  C8, as stated, fails on the result of the example listing: the summary shows the
  operating-expense ratio as \<open>35%\<close> and the cap rate as \<open>7.80%\<close>, where one decimal
  place would give \<open>35.0%\<close> and \<open>7.8%\<close>.
\<close>

theorem summary_percent_places_counterexample:
  "format_roe_summary (map_of example_result) =
     Inr (fill (summary_captions (label (ROE_TIERS unicorn)))
       [''31.2%'', ''1,000,000'', ''250,000'', ''750,000'', ''10'', ''1,000'', ''120,000'',
        ''42,000'', ''35%'', ''78,000'', ''78,000'', ''25,000'', ''53,000'', ''21.2%'',
        ''53,000'', ''25,000'', ''0'', ''78,000'', ''31.2%'', ''7.80%'']) \<and>
   map_of example_result ''opex_ratio'' = Some (Num (35 / 100)) \<and>
   format_percent 1 (35 / 100) = ''35.0%'' \<and>
   map_of example_result ''cap_rate'' = Some (Num (39 / 500)) \<and>
   format_percent 1 (39 / 500) = ''7.8%'' \<and>
   format_roe_summary (map_of example_result) \<noteq>
     Inr (fill (summary_captions (label (ROE_TIERS unicorn)))
       [''31.2%'', ''1,000,000'', ''250,000'', ''750,000'', ''10'', ''1,000'', ''120,000'',
        ''42,000'', ''35.0%'', ''78,000'', ''78,000'', ''25,000'', ''53,000'', ''21.2%'',
        ''53,000'', ''25,000'', ''0'', ''78,000'', ''31.2%'', ''7.8%''])"
proof -
  have "fill (summary_captions (label (ROE_TIERS unicorn)))
       [''31.2%'', ''1,000,000'', ''250,000'', ''750,000'', ''10'', ''1,000'', ''120,000'',
        ''42,000'', ''35%'', ''78,000'', ''78,000'', ''25,000'', ''53,000'', ''21.2%'',
        ''53,000'', ''25,000'', ''0'', ''78,000'', ''31.2%'', ''7.80%''] \<noteq>
     fill (summary_captions (label (ROE_TIERS unicorn)))
       [''31.2%'', ''1,000,000'', ''250,000'', ''750,000'', ''10'', ''1,000'', ''120,000'',
        ''42,000'', ''35.0%'', ''78,000'', ''78,000'', ''25,000'', ''53,000'', ''21.2%'',
        ''53,000'', ''25,000'', ''0'', ''78,000'', ''31.2%'', ''7.8%'']"
    by (simp add: summary_captions_def)
  moreover have "map_of example_result ''opex_ratio'' = Some (Num (35 / 100))"
    "map_of example_result ''cap_rate'' = Some (Num (39 / 500))"
    by (simp_all add: example_result_def)
  ultimately show ?thesis
    by (simp only: example_summary example_renderings sum.inject simp_thms)
qed

end
